theory Spec2Isabelle
  imports Main
begin

section \<open>The burglar alarm: pins, board state and observable events\<close>

text \<open>
  The script \<^verbatim>\<open>docs/projects/burglarAlarm/burglarAlarm.py\<close> creates five
  \<^verbatim>\<open>machine.Pin\<close> objects, registers \<^verbatim>\<open>pir_handler\<close> as the rising-edge
  handler of the two sensors, and then runs a heartbeat loop forever.

  A pin object is identified by its GPIO number; the test \<^verbatim>\<open>pin is snsr_bedroom\<close> of
  the source is equality of pin objects. The mode arguments (\<^verbatim>\<open>IN\<close>, \<^verbatim>\<open>PULL_DOWN\<close>,
  \<^verbatim>\<open>OUT\<close>) configure the hardware and are not inspected by the code.
\<close>

datatype pin = Pin nat

definition snsr_bedroom :: pin where
  "snsr_bedroom = Pin 28"

definition snsr_living_room :: pin where
  "snsr_living_room = Pin 18"

definition led_bedroom :: pin where
  "led_bedroom = Pin 15"

definition led_living_room :: pin where
  "led_living_room = Pin 11"

definition buzzer :: pin where
  "buzzer = Pin 14"

text \<open>
  What the program does to the outside world: a line on the console, a toggle of an
  output pin, a read of a pin (with the level that was read).
\<close>

datatype event = Print string | Toggle pin | Read pin bool

text \<open>
  The board: the level every pin currently drives, the time in milliseconds, and the
  log of events so far, each stamped with the time at which it happened. Statements
  other than the sleeps take no time.
\<close>

record board =
  level :: "pin \<Rightarrow> bool"
  clock :: nat
  trace :: "(nat \<times> event) list"

text \<open>
  The environment: \<open>env t p\<close> is the level that \<^verbatim>\<open>p.value()\<close> returns at time \<open>t\<close>.
  Nothing is assumed about it.
\<close>

type_synonym environment = "nat \<Rightarrow> pin \<Rightarrow> bool"

definition emit :: "event \<Rightarrow> board \<Rightarrow> board" where
  "emit e s = s\<lparr>trace := trace s @ [(clock s, e)]\<rparr>"

definition sleep_ms :: "nat \<Rightarrow> board \<Rightarrow> board" where
  "sleep_ms d s = s\<lparr>clock := clock s + d\<rparr>"

definition sleep :: "nat \<Rightarrow> board \<Rightarrow> board" where
  "sleep secs s = sleep_ms (1000 * secs) s"

definition toggle :: "pin \<Rightarrow> board \<Rightarrow> board" where
  "toggle p s = emit (Toggle p) (s\<lparr>level := (level s)(p := \<not> level s p)\<rparr>)"

definition print :: "string \<Rightarrow> board \<Rightarrow> board" where
  "print msg s = emit (Print msg) s"

definition pin_value :: "environment \<Rightarrow> pin \<Rightarrow> board \<Rightarrow> bool \<times> board" where
  "pin_value env p s = (env (clock s) p, emit (Read p (env (clock s) p)) s)"

text \<open>\<^verbatim>\<open>for i in range(n): body\<close>\<close>

definition for_range :: "nat \<Rightarrow> (nat \<Rightarrow> board \<Rightarrow> board) \<Rightarrow> board \<Rightarrow> board" where
  "for_range n body s = fold body [0..<n] s"

subsection \<open>The interrupt handler\<close>

definition pir_handler :: "environment \<Rightarrow> pin \<Rightarrow> board \<Rightarrow> board" where
  "pir_handler env pin s0 =
     (let s1 = sleep_ms 100 s0;
          (v, s2) = pin_value env pin s1
      in if v then
           if pin = snsr_bedroom then
             for_range 10
               (\<lambda>i s. sleep_ms 100 (toggle buzzer (toggle led_bedroom s)))
               (print ''ALARM! Motion detected in bedroom!'' s2)
           else if pin = snsr_living_room then
             for_range 10
               (\<lambda>i s. sleep_ms 100 (toggle buzzer (toggle led_living_room s)))
               (print ''ALARM! Motion detected in living room!'' s2)
           else s2
         else s2)"

subsection \<open>The heartbeat loop\<close>

text \<open>
  \<^verbatim>\<open>while True:\<close> has no exit. \<open>heartbeat_iteration\<close> is its body and
  \<open>main_loop n\<close> the first \<open>n\<close> iterations of the loop.
\<close>

definition heartbeat_iteration :: "board \<Rightarrow> board" where
  "heartbeat_iteration s = sleep 1 (toggle led_living_room (toggle led_bedroom s))"

fun main_loop :: "nat \<Rightarrow> board \<Rightarrow> board" where
  "main_loop 0 s = s"
| "main_loop (Suc n) s = main_loop n (heartbeat_iteration s)"

subsection \<open>Reading the event log\<close>

text \<open>The events logged between an earlier board \<open>s\<close> and a later board \<open>s'\<close>.\<close>

definition emitted :: "board \<Rightarrow> board \<Rightarrow> (nat \<times> event) list" where
  "emitted s s' = drop (length (trace s)) (trace s')"

definition toggle_times :: "pin \<Rightarrow> (nat \<times> event) list \<Rightarrow> nat list" where
  "toggle_times p tr = map fst (filter (\<lambda>x. snd x = Toggle p) tr)"

definition toggles :: "pin \<Rightarrow> (nat \<times> event) list \<Rightarrow> nat" where
  "toggles p tr = length (toggle_times p tr)"

definition console :: "(nat \<times> event) list \<Rightarrow> string list" where
  "console tr = concat (map (\<lambda>x. case snd x of Print msg \<Rightarrow> [msg] | _ \<Rightarrow> []) tr)"

definition reads :: "(nat \<times> event) list \<Rightarrow> (nat \<times> pin \<times> bool) list" where
  "reads tr = concat (map (\<lambda>x. case snd x of Read p v \<Rightarrow> [(fst x, p, v)] | _ \<Rightarrow> []) tr)"


subsection \<open>The program as a whole\<close>

text \<open>
  The two \<^verbatim>\<open>irq\<close> registrations make the board call \<open>pir_handler\<close> with the pin
  that saw a rising edge; the handler then runs to completion while the main loop is
  suspended. An execution of the program is therefore a sequence of occurrences: the
  main loop executes its next statement, or an interrupt arrives and the handler runs.
  \<open>main_stmt pc\<close> is statement number \<open>pc\<close> of the loop body and \<open>run\<close> executes a
  sequence of occurrences, \<open>pc\<close> being the statement the loop is at.
\<close>

datatype occurrence = Statement | Interrupt pin

definition main_stmt :: "nat \<Rightarrow> board \<Rightarrow> board" where
  "main_stmt pc s =
     (if pc = 0 then toggle led_bedroom s
      else if pc = 1 then toggle led_living_room s
      else sleep 1 s)"

fun run :: "environment \<Rightarrow> nat \<Rightarrow> occurrence list \<Rightarrow> board \<Rightarrow> board" where
  "run env pc [] s = s"
| "run env pc (Statement # os) s = run env ((pc + 1) mod 3) os (main_stmt pc s)"
| "run env pc (Interrupt p # os) s = run env pc os (pir_handler env p s)"

subsection \<open>Event sequences used to state the results\<close>

text \<open>
  \<open>n\<close> rounds of paired toggles of an indicator and the buzzer, the first at time \<open>c\<close>,
  100 ms apart.
\<close>

definition pulse_events :: "pin \<Rightarrow> nat \<Rightarrow> nat \<Rightarrow> (nat \<times> event) list" where
  "pulse_events led c n =
     concat (map (\<lambda>k. [(c + 100 * k, Toggle led), (c + 100 * k, Toggle buzzer)]) [0..<n])"

text \<open>\<open>n\<close> rounds of the heartbeat, the first at time \<open>c\<close>, one second apart.\<close>

definition heartbeat_events :: "nat \<Rightarrow> nat \<Rightarrow> (nat \<times> event) list" where
  "heartbeat_events c n =
     concat (map (\<lambda>k. [(c + 1000 * k, Toggle led_bedroom),
                        (c + 1000 * k, Toggle led_living_room)]) [0..<n])"

text \<open>
  The console lines the specification asks for, given the reads that were made: one
  line for every read of a sensor that came back high, naming the sensor's zone.
\<close>

definition alert_lines :: "(nat \<times> pin \<times> bool) list \<Rightarrow> string list" where
  "alert_lines rs =
     concat (map (\<lambda>(t, p, v).
       if v \<and> p = snsr_bedroom then [''ALARM! Motion detected in bedroom!'']
       else if v \<and> p = snsr_living_room then [''ALARM! Motion detected in living room!'']
       else []) rs)"

text \<open>Concrete inputs: a board at power-on and three environments.\<close>

definition idle_board :: board where
  "idle_board = \<lparr>level = (\<lambda>p. False), clock = 0, trace = []\<rparr>"

definition always_high :: environment where
  "always_high t p = True"

definition always_low :: environment where
  "always_low t p = False"

definition high_until :: "nat \<Rightarrow> environment" where
  "high_until d t p = (t \<le> d)"

section \<open>Basic facts\<close>

lemma pins_distinct:
  "snsr_bedroom \<noteq> snsr_living_room" "snsr_living_room \<noteq> snsr_bedroom"
  "led_bedroom \<noteq> led_living_room" "led_living_room \<noteq> led_bedroom"
  "led_bedroom \<noteq> buzzer" "buzzer \<noteq> led_bedroom"
  "led_living_room \<noteq> buzzer" "buzzer \<noteq> led_living_room"
  by (simp_all add: snsr_bedroom_def snsr_living_room_def led_bedroom_def
      led_living_room_def buzzer_def)

lemma for_range_0: "for_range 0 body s = s"
  by (simp add: for_range_def)

lemma for_range_Suc: "for_range (Suc n) body s = body n (for_range n body s)"
  by (simp add: for_range_def)

lemma clock_emit: "clock (emit e s) = clock s"
  by (simp add: emit_def)

lemma level_emit: "level (emit e s) = level s"
  by (simp add: emit_def)

lemma trace_emit: "trace (emit e s) = trace s @ [(clock s, e)]"
  by (simp add: emit_def)

lemma clock_toggle: "clock (toggle p s) = clock s"
  by (simp add: toggle_def emit_def)

lemma level_toggle: "level (toggle p s) = (level s)(p := \<not> level s p)"
  by (simp add: toggle_def emit_def)

lemma trace_toggle: "trace (toggle p s) = trace s @ [(clock s, Toggle p)]"
  by (simp add: toggle_def emit_def)

lemma clock_sleep_ms: "clock (sleep_ms d s) = clock s + d"
  by (simp add: sleep_ms_def)

lemma level_sleep_ms: "level (sleep_ms d s) = level s"
  by (simp add: sleep_ms_def)

lemma trace_sleep_ms: "trace (sleep_ms d s) = trace s"
  by (simp add: sleep_ms_def)

lemmas board_simps = clock_emit level_emit trace_emit clock_toggle level_toggle trace_toggle
  clock_sleep_ms level_sleep_ms trace_sleep_ms

text \<open>The pulse loop of the handler, for any indicator and any number of rounds.\<close>

lemma clock_pulse:
  "clock (for_range n (\<lambda>i s. sleep_ms 100 (toggle buzzer (toggle led s))) s) = clock s + 100 * n"
  by (induction n) (simp_all add: for_range_0 for_range_Suc board_simps)

lemma trace_pulse:
  "trace (for_range n (\<lambda>i s. sleep_ms 100 (toggle buzzer (toggle led s))) s)
     = trace s @ pulse_events led (clock s) n"
  by (induction n) (simp_all add: for_range_0 for_range_Suc board_simps clock_pulse pulse_events_def)

lemma level_pulse:
  "led \<noteq> buzzer \<Longrightarrow>
   level (for_range n (\<lambda>i s. sleep_ms 100 (toggle buzzer (toggle led s))) s)
     = (\<lambda>p. if p = led \<or> p = buzzer then level s p \<noteq> odd n else level s p)"
  by (induction n) (auto simp add: for_range_0 for_range_Suc board_simps fun_eq_iff)


lemma emitted_append: "trace s' = trace s @ xs \<Longrightarrow> emitted s s' = xs"
  by (simp add: emitted_def)

lemma toggle_times_simps:
  "toggle_times p [] = []"
  "toggle_times p ((t, Toggle q) # tr) = (if q = p then t # toggle_times p tr else toggle_times p tr)"
  "toggle_times p ((t, Print msg) # tr) = toggle_times p tr"
  "toggle_times p ((t, Read q v) # tr) = toggle_times p tr"
  "toggle_times p (tr @ tr') = toggle_times p tr @ toggle_times p tr'"
  by (simp_all add: toggle_times_def)

lemma console_simps:
  "console [] = []"
  "console ((t, Toggle q) # tr) = console tr"
  "console ((t, Print msg) # tr) = msg # console tr"
  "console ((t, Read q v) # tr) = console tr"
  "console (tr @ tr') = console tr @ console tr'"
  by (simp_all add: console_def)

lemma reads_simps:
  "reads [] = []"
  "reads ((t, Toggle q) # tr) = reads tr"
  "reads ((t, Print msg) # tr) = reads tr"
  "reads ((t, Read q v) # tr) = (t, q, v) # reads tr"
  "reads (tr @ tr') = reads tr @ reads tr'"
  by (simp_all add: reads_def)

lemma pulse_events_Suc:
  "pulse_events led c (Suc n)
     = pulse_events led c n @ [(c + 100 * n, Toggle led), (c + 100 * n, Toggle buzzer)]"
  by (simp add: pulse_events_def)

lemma pulse_events_0: "pulse_events led c 0 = []"
  by (simp add: pulse_events_def)

lemma toggle_times_pulse_led:
  "led \<noteq> buzzer \<Longrightarrow> toggle_times led (pulse_events led c n) = map (\<lambda>k. c + 100 * k) [0..<n]"
  by (induction n) (simp_all add: pulse_events_0 pulse_events_Suc toggle_times_simps)

lemma toggle_times_pulse_buzzer:
  "led \<noteq> buzzer \<Longrightarrow> toggle_times buzzer (pulse_events led c n) = map (\<lambda>k. c + 100 * k) [0..<n]"
  by (induction n) (simp_all add: pulse_events_0 pulse_events_Suc toggle_times_simps)

lemma toggle_times_pulse_other:
  "p \<noteq> led \<Longrightarrow> p \<noteq> buzzer \<Longrightarrow> toggle_times p (pulse_events led c n) = []"
  by (induction n) (simp_all add: pulse_events_0 pulse_events_Suc toggle_times_simps)

lemma console_pulse: "console (pulse_events led c n) = []"
  by (induction n) (simp_all add: pulse_events_0 pulse_events_Suc console_simps)

lemma reads_pulse: "reads (pulse_events led c n) = []"
  by (induction n) (simp_all add: pulse_events_0 pulse_events_Suc reads_simps)

text \<open>The handler, case by case.\<close>

lemma pir_handler_low:
  "\<not> env (clock s + 100) pin \<Longrightarrow>
   pir_handler env pin s
     = s\<lparr>clock := clock s + 100, trace := trace s @ [(clock s + 100, Read pin False)]\<rparr>"
  by (simp add: pir_handler_def Let_def pin_value_def sleep_ms_def emit_def)

lemma pir_handler_unknown_pin:
  "pin \<noteq> snsr_bedroom \<Longrightarrow> pin \<noteq> snsr_living_room \<Longrightarrow>
   pir_handler env pin s
     = s\<lparr>clock := clock s + 100,
         trace := trace s @ [(clock s + 100, Read pin (env (clock s + 100) pin))]\<rparr>"
  by (simp add: pir_handler_def Let_def pin_value_def sleep_ms_def emit_def)

lemma pir_handler_bedroom:
  "env (clock s + 100) snsr_bedroom \<Longrightarrow>
   pir_handler env snsr_bedroom s
     = for_range 10 (\<lambda>i s. sleep_ms 100 (toggle buzzer (toggle led_bedroom s)))
         (s\<lparr>clock := clock s + 100,
            trace := trace s @ [(clock s + 100, Read snsr_bedroom True),
              (clock s + 100, Print ''ALARM! Motion detected in bedroom!'')]\<rparr>)"
  by (simp add: pir_handler_def Let_def pin_value_def sleep_ms_def emit_def print_def)

lemma pir_handler_living_room:
  "env (clock s + 100) snsr_living_room \<Longrightarrow>
   pir_handler env snsr_living_room s
     = for_range 10 (\<lambda>i s. sleep_ms 100 (toggle buzzer (toggle led_living_room s)))
         (s\<lparr>clock := clock s + 100,
            trace := trace s @ [(clock s + 100, Read snsr_living_room True),
              (clock s + 100, Print ''ALARM! Motion detected in living room!'')]\<rparr>)"
  by (simp add: pir_handler_def Let_def pin_value_def sleep_ms_def emit_def print_def pins_distinct)

lemma trace_pir_handler_bedroom:
  "env (clock s + 100) snsr_bedroom \<Longrightarrow>
   trace (pir_handler env snsr_bedroom s)
     = trace s @ (clock s + 100, Read snsr_bedroom True)
         # (clock s + 100, Print ''ALARM! Motion detected in bedroom!'')
         # pulse_events led_bedroom (clock s + 100) 10"
  by (simp add: pir_handler_bedroom trace_pulse)

lemma trace_pir_handler_living_room:
  "env (clock s + 100) snsr_living_room \<Longrightarrow>
   trace (pir_handler env snsr_living_room s)
     = trace s @ (clock s + 100, Read snsr_living_room True)
         # (clock s + 100, Print ''ALARM! Motion detected in living room!'')
         # pulse_events led_living_room (clock s + 100) 10"
  by (simp add: pir_handler_living_room trace_pulse)

lemma clock_pir_handler_confirmed:
  "env (clock s + 100) pin \<Longrightarrow> pin = snsr_bedroom \<or> pin = snsr_living_room \<Longrightarrow>
   clock (pir_handler env pin s) = clock s + 1100"
  by (auto simp add: pir_handler_bedroom pir_handler_living_room clock_pulse)

lemma level_pir_handler: "level (pir_handler env pin s) = level s"
proof (cases "env (clock s + 100) pin")
  case False
  then show ?thesis by (simp add: pir_handler_low)
next
  case high: True
  show ?thesis
  proof (cases "pin = snsr_bedroom")
    case True
    with high show ?thesis
      by (simp add: pir_handler_bedroom level_pulse pins_distinct fun_eq_iff)
  next
    case nb: False
    show ?thesis
    proof (cases "pin = snsr_living_room")
      case True
      with high show ?thesis
        by (simp add: pir_handler_living_room level_pulse pins_distinct fun_eq_iff)
    next
      case False
      with nb show ?thesis by (simp add: pir_handler_unknown_pin)
    qed
  qed
qed

text \<open>The heartbeat loop.\<close>

lemma heartbeat_iteration_eq:
  "heartbeat_iteration s
     = s\<lparr>level := (level s)(led_bedroom := \<not> level s led_bedroom,
                            led_living_room := \<not> level s led_living_room),
         clock := clock s + 1000,
         trace := trace s @ [(clock s, Toggle led_bedroom), (clock s, Toggle led_living_room)]\<rparr>"
  by (simp add: heartbeat_iteration_def sleep_def sleep_ms_def toggle_def emit_def pins_distinct)

lemma main_loop_Suc_end: "main_loop (Suc n) s = heartbeat_iteration (main_loop n s)"
  by (induction n arbitrary: s) simp_all

lemma clock_main_loop: "clock (main_loop n s) = clock s + 1000 * n"
  by (induction n) (simp_all add: main_loop_Suc_end heartbeat_iteration_eq del: main_loop.simps(2))

lemma heartbeat_events_0: "heartbeat_events c 0 = []"
  by (simp add: heartbeat_events_def)

lemma heartbeat_events_Suc:
  "heartbeat_events c (Suc n)
     = heartbeat_events c n
         @ [(c + 1000 * n, Toggle led_bedroom), (c + 1000 * n, Toggle led_living_room)]"
  by (simp add: heartbeat_events_def)

lemma trace_main_loop: "trace (main_loop n s) = trace s @ heartbeat_events (clock s) n"
  by (induction n)
    (simp_all add: main_loop_Suc_end heartbeat_iteration_eq clock_main_loop
      heartbeat_events_0 heartbeat_events_Suc del: main_loop.simps(2))

lemma level_main_loop:
  "level (main_loop n s)
     = (\<lambda>p. if p = led_bedroom \<or> p = led_living_room then level s p \<noteq> odd n else level s p)"
  by (induction n)
    (auto simp add: main_loop_Suc_end heartbeat_iteration_eq fun_eq_iff pins_distinct
      simp del: main_loop.simps(2))

lemma toggle_times_heartbeat_bedroom:
  "toggle_times led_bedroom (heartbeat_events c n) = map (\<lambda>k. c + 1000 * k) [0..<n]"
  by (induction n)
    (simp_all add: heartbeat_events_0 heartbeat_events_Suc toggle_times_simps pins_distinct)

lemma toggle_times_heartbeat_living_room:
  "toggle_times led_living_room (heartbeat_events c n) = map (\<lambda>k. c + 1000 * k) [0..<n]"
  by (induction n)
    (simp_all add: heartbeat_events_0 heartbeat_events_Suc toggle_times_simps pins_distinct)

lemma toggle_times_heartbeat_other:
  "p \<noteq> led_bedroom \<Longrightarrow> p \<noteq> led_living_room \<Longrightarrow> toggle_times p (heartbeat_events c n) = []"
  by (induction n)
    (simp_all add: heartbeat_events_0 heartbeat_events_Suc toggle_times_simps)

lemma console_heartbeat: "console (heartbeat_events c n) = []"
  by (induction n) (simp_all add: heartbeat_events_0 heartbeat_events_Suc console_simps)

lemma reads_heartbeat: "reads (heartbeat_events c n) = []"
  by (induction n) (simp_all add: heartbeat_events_0 heartbeat_events_Suc reads_simps)

text \<open>A heartbeat-only execution is a run in which no interrupt arrives.\<close>

lemma run_three_statements:
  "run env 0 (Statement # Statement # Statement # os) s = run env 0 os (heartbeat_iteration s)"
  by (simp add: main_stmt_def heartbeat_iteration_def)

lemma main_loop_is_run:
  "main_loop n s = run env 0 (concat (replicate n [Statement, Statement, Statement])) s"
  by (induction n arbitrary: s) (simp_all add: main_stmt_def heartbeat_iteration_def)

text \<open>Console output of the pieces and of whole executions.\<close>

lemma alert_lines_simps:
  "alert_lines [] = []"
  "alert_lines (rs @ rs') = alert_lines rs @ alert_lines rs'"
  by (simp_all add: alert_lines_def)

lemma pir_handler_extends:
  "\<exists>xs. trace (pir_handler env pin s) = trace s @ xs \<and> console xs = alert_lines (reads xs)"
proof (cases "env (clock s + 100) pin")
  case False
  then show ?thesis
    by (simp add: pir_handler_low console_simps reads_simps alert_lines_def)
next
  case high: True
  show ?thesis
  proof (cases "pin = snsr_bedroom")
    case True
    with high show ?thesis
      by (simp add: trace_pir_handler_bedroom console_simps reads_simps console_pulse
          reads_pulse alert_lines_def)
  next
    case nb: False
    show ?thesis
    proof (cases "pin = snsr_living_room")
      case True
      with high show ?thesis
        by (simp add: trace_pir_handler_living_room console_simps reads_simps console_pulse
            reads_pulse alert_lines_def pins_distinct)
    next
      case False
      with nb show ?thesis
        by (simp add: pir_handler_unknown_pin console_simps reads_simps alert_lines_def)
    qed
  qed
qed

lemma main_stmt_extends:
  "\<exists>xs. trace (main_stmt pc s) = trace s @ xs \<and> console xs = [] \<and> reads xs = []"
  by (simp add: main_stmt_def board_simps sleep_def console_simps reads_simps)

lemma run_extends:
  "\<exists>xs. trace (run env pc os s) = trace s @ xs \<and> console xs = alert_lines (reads xs)"
proof (induction os arbitrary: pc s)
  case Nil
  show ?case by (simp add: console_simps reads_simps alert_lines_simps)
next
  case (Cons a os)
  show ?case
  proof (cases a)
    case Statement
    obtain xs where xs: "trace (main_stmt pc s) = trace s @ xs" "console xs = []" "reads xs = []"
      using main_stmt_extends by blast
    obtain ys where ys: "trace (run env ((pc + 1) mod 3) os (main_stmt pc s)) = trace (main_stmt pc s) @ ys"
      "console ys = alert_lines (reads ys)"
      using Cons.IH by blast
    from xs ys Statement show ?thesis
      by (simp add: console_simps reads_simps alert_lines_simps)
  next
    case (Interrupt p)
    obtain xs where xs: "trace (pir_handler env p s) = trace s @ xs"
      "console xs = alert_lines (reads xs)"
      using pir_handler_extends by blast
    obtain ys where ys: "trace (run env pc os (pir_handler env p s)) = trace (pir_handler env p s) @ ys"
      "console ys = alert_lines (reads ys)"
      using Cons.IH by blast
    from xs ys Interrupt show ?thesis
      by (simp add: console_simps reads_simps alert_lines_simps)
  qed
qed

lemma console_run:
  "console (emitted s (run env pc os s)) = alert_lines (reads (emitted s (run env pc os s)))"
proof -
  obtain xs where xs: "trace (run env pc os s) = trace s @ xs" "console xs = alert_lines (reads xs)"
    using run_extends by blast
  then show ?thesis by (simp add: emitted_append)
qed

lemma toggles_emitted_append:
  "trace s' = trace s @ xs \<Longrightarrow> toggles p (emitted s s') = length (toggle_times p xs)"
  by (simp add: emitted_append toggles_def)

lemma emitted_pir_handler_bedroom:
  "env (clock s + 100) snsr_bedroom \<Longrightarrow>
   emitted s (pir_handler env snsr_bedroom s)
     = (clock s + 100, Read snsr_bedroom True)
         # (clock s + 100, Print ''ALARM! Motion detected in bedroom!'')
         # pulse_events led_bedroom (clock s + 100) 10"
  by (simp add: emitted_append trace_pir_handler_bedroom)

lemma emitted_pir_handler_living_room:
  "env (clock s + 100) snsr_living_room \<Longrightarrow>
   emitted s (pir_handler env snsr_living_room s)
     = (clock s + 100, Read snsr_living_room True)
         # (clock s + 100, Print ''ALARM! Motion detected in living room!'')
         # pulse_events led_living_room (clock s + 100) 10"
  by (simp add: emitted_append trace_pir_handler_living_room)

lemma emitted_pir_handler_low:
  "\<not> env (clock s + 100) pin \<Longrightarrow>
   emitted s (pir_handler env pin s) = [(clock s + 100, Read pin False)]"
  by (simp add: emitted_append pir_handler_low)

lemma emitted_pir_handler_unknown_pin:
  "pin \<noteq> snsr_bedroom \<Longrightarrow> pin \<noteq> snsr_living_room \<Longrightarrow>
   emitted s (pir_handler env pin s) = [(clock s + 100, Read pin (env (clock s + 100) pin))]"
  by (simp add: emitted_append pir_handler_unknown_pin)

lemma emitted_main_loop: "emitted s (main_loop n s) = heartbeat_events (clock s) n"
  by (simp add: emitted_append trace_main_loop)

lemmas log_simps = toggles_def toggle_times_simps console_simps reads_simps
  toggle_times_pulse_led toggle_times_pulse_buzzer toggle_times_pulse_other
  console_pulse reads_pulse pins_distinct

section \<open>The alert handler\<close>

text \<open>
  Claim C1, as amended. For every trigger where the triggering sensor's level is read as
  high after the 100 ms debounce delay, the handler produces exactly one alert message
  naming the corresponding zone, and the corresponding zone indicator and the shared
  alerting device each toggle exactly 10 times (5 full on/off cycles) over the pulse
  sequence; after the even number of toggles every output level is what it was before.
  The claim as written says 20 toggles (10 cycles); the loops of \<open>pir_handler\<close> are
  \<^verbatim>\<open>for i in range(10)\<close> with one toggle of each pin per round.
\<close>
theorem pir_handler_confirmed_alert:
  assumes high: "env (clock s + 100) pin"
  shows "(pin = snsr_bedroom \<longrightarrow>
            console (emitted s (pir_handler env pin s)) = [''ALARM! Motion detected in bedroom!'']
          \<and> toggles led_bedroom (emitted s (pir_handler env pin s)) = 10
          \<and> toggles buzzer (emitted s (pir_handler env pin s)) = 10)
       \<and> (pin = snsr_living_room \<longrightarrow>
            console (emitted s (pir_handler env pin s)) = [''ALARM! Motion detected in living room!'']
          \<and> toggles led_living_room (emitted s (pir_handler env pin s)) = 10
          \<and> toggles buzzer (emitted s (pir_handler env pin s)) = 10)
       \<and> level (pir_handler env pin s) = level s"
proof (intro conjI impI)
  assume "pin = snsr_bedroom"
  with high have e: "emitted s (pir_handler env pin s)
     = (clock s + 100, Read snsr_bedroom True)
         # (clock s + 100, Print ''ALARM! Motion detected in bedroom!'')
         # pulse_events led_bedroom (clock s + 100) 10"
    by (simp add: emitted_pir_handler_bedroom)
  show "console (emitted s (pir_handler env pin s)) = [''ALARM! Motion detected in bedroom!'']"
    by (simp add: e log_simps)
  show "toggles led_bedroom (emitted s (pir_handler env pin s)) = 10"
    by (simp add: e log_simps)
  show "toggles buzzer (emitted s (pir_handler env pin s)) = 10"
    by (simp add: e log_simps)
next
  assume "pin = snsr_living_room"
  with high have e: "emitted s (pir_handler env pin s)
     = (clock s + 100, Read snsr_living_room True)
         # (clock s + 100, Print ''ALARM! Motion detected in living room!'')
         # pulse_events led_living_room (clock s + 100) 10"
    by (simp add: emitted_pir_handler_living_room)
  show "console (emitted s (pir_handler env pin s)) = [''ALARM! Motion detected in living room!'']"
    by (simp add: e log_simps)
  show "toggles led_living_room (emitted s (pir_handler env pin s)) = 10"
    by (simp add: e log_simps)
  show "toggles buzzer (emitted s (pir_handler env pin s)) = 10"
    by (simp add: e log_simps)
next
  show "level (pir_handler env pin s) = level s"
    by (rule level_pir_handler)
qed

text \<open>
  The theorem at a concrete trigger: the bedroom sensor, on a board at power-on, in an
  environment where every read is high.
\<close>

theorem pir_handler_confirmed_alert_witness:
  "always_high (clock idle_board + 100) snsr_bedroom
   \<and> console (emitted idle_board (pir_handler always_high snsr_bedroom idle_board))
       = [''ALARM! Motion detected in bedroom!'']
   \<and> toggles led_bedroom (emitted idle_board (pir_handler always_high snsr_bedroom idle_board)) = 10
   \<and> toggles buzzer (emitted idle_board (pir_handler always_high snsr_bedroom idle_board)) = 10
   \<and> level (pir_handler always_high snsr_bedroom idle_board) = level idle_board"
proof -
  have h: "always_high (clock idle_board + 100) snsr_bedroom"
    by (simp add: always_high_def)
  show ?thesis
    using h pir_handler_confirmed_alert [of always_high idle_board snsr_bedroom] by simp
qed

text \<open>
  Claim C1 as written fails: at the same trigger the bedroom indicator and the buzzer
  toggle 10 times each, not 20.
\<close>

theorem twenty_toggles_counterexample:
  "always_high (clock idle_board + 100) snsr_bedroom
   \<and> toggles led_bedroom (emitted idle_board (pir_handler always_high snsr_bedroom idle_board)) = 10
   \<and> toggles buzzer (emitted idle_board (pir_handler always_high snsr_bedroom idle_board)) = 10
   \<and> toggles led_bedroom (emitted idle_board (pir_handler always_high snsr_bedroom idle_board)) \<noteq> 20
   \<and> toggles buzzer (emitted idle_board (pir_handler always_high snsr_bedroom idle_board)) \<noteq> 20"
proof -
  have h: "always_high (clock idle_board + 100) snsr_bedroom"
    by (simp add: always_high_def)
  have e: "emitted idle_board (pir_handler always_high snsr_bedroom idle_board)
     = (clock idle_board + 100, Read snsr_bedroom True)
         # (clock idle_board + 100, Print ''ALARM! Motion detected in bedroom!'')
         # pulse_events led_bedroom (clock idle_board + 100) 10"
    using h by (rule emitted_pir_handler_bedroom)
  have b: "toggles led_bedroom (emitted idle_board (pir_handler always_high snsr_bedroom idle_board)) = 10"
    by (simp add: e log_simps)
  have z: "toggles buzzer (emitted idle_board (pir_handler always_high snsr_bedroom idle_board)) = 10"
    by (simp add: e log_simps)
  show ?thesis using h b z by simp
qed




text \<open>
  Claim C3. For every trigger where the sensor reads low after the 100 ms debounce delay,
  the handler logs that one read and nothing else: no message is printed, no pin \<open>p\<close> is
  toggled, and every output level is unchanged.
\<close>
theorem pir_handler_debounce_reject:
  assumes low: "\<not> env (clock s + 100) pin"
  shows "emitted s (pir_handler env pin s) = [(clock s + 100, Read pin False)]
       \<and> console (emitted s (pir_handler env pin s)) = []
       \<and> toggles p (emitted s (pir_handler env pin s)) = 0
       \<and> level (pir_handler env pin s) = level s"
  using low
  by (simp add: emitted_pir_handler_low level_pir_handler console_simps toggles_def
      toggle_times_simps)

text \<open>
  The scenario of the specification: the living-room sensor is high for only 50 ms.
\<close>

theorem pir_handler_debounce_reject_witness:
  "\<not> high_until 50 (clock idle_board + 100) snsr_living_room
   \<and> emitted idle_board (pir_handler (high_until 50) snsr_living_room idle_board)
       = [(100, Read snsr_living_room False)]
   \<and> console (emitted idle_board (pir_handler (high_until 50) snsr_living_room idle_board)) = []
   \<and> toggles led_living_room
       (emitted idle_board (pir_handler (high_until 50) snsr_living_room idle_board)) = 0
   \<and> level (pir_handler (high_until 50) snsr_living_room idle_board) = level idle_board"
proof -
  have h: "\<not> high_until 50 (clock idle_board + 100) snsr_living_room"
    by (simp add: high_until_def idle_board_def)
  have c: "clock idle_board = 0"
    by (simp add: idle_board_def)
  show ?thesis
    using h pir_handler_debounce_reject [of "high_until 50" idle_board snsr_living_room
        led_living_room]
    by (simp add: c console_simps toggles_def toggle_times_simps)
qed

text \<open>
  Claim C7. If the handler is invoked with a pin that is neither the bedroom sensor nor
  the living-room sensor, then whatever level the read returns (high included) the
  handler logs that one read and nothing else: no console output, no toggle of any pin
  \<open>p\<close>, every output level unchanged.
\<close>
theorem pir_handler_unrecognised_pin:
  assumes "pin \<noteq> snsr_bedroom" and "pin \<noteq> snsr_living_room"
  shows "emitted s (pir_handler env pin s) = [(clock s + 100, Read pin (env (clock s + 100) pin))]
       \<and> console (emitted s (pir_handler env pin s)) = []
       \<and> toggles p (emitted s (pir_handler env pin s)) = 0
       \<and> level (pir_handler env pin s) = level s"
  using assms
  by (simp add: emitted_pir_handler_unknown_pin level_pir_handler console_simps toggles_def
      toggle_times_simps)

text \<open>A pin the program never created, reading high.\<close>

theorem pir_handler_unrecognised_pin_witness:
  "Pin 7 \<noteq> snsr_bedroom \<and> Pin 7 \<noteq> snsr_living_room
   \<and> always_high (clock idle_board + 100) (Pin 7)
   \<and> emitted idle_board (pir_handler always_high (Pin 7) idle_board) = [(100, Read (Pin 7) True)]
   \<and> console (emitted idle_board (pir_handler always_high (Pin 7) idle_board)) = []
   \<and> toggles buzzer (emitted idle_board (pir_handler always_high (Pin 7) idle_board)) = 0
   \<and> level (pir_handler always_high (Pin 7) idle_board) = level idle_board"
proof -
  have a: "Pin 7 \<noteq> snsr_bedroom" and b: "Pin 7 \<noteq> snsr_living_room"
    by (simp_all add: snsr_bedroom_def snsr_living_room_def)
  have c: "clock idle_board = 0"
    by (simp add: idle_board_def)
  show ?thesis
    using a b pir_handler_unrecognised_pin [of "Pin 7" idle_board always_high buzzer]
    by (simp add: c always_high_def console_simps toggles_def toggle_times_simps)
qed

lemma emitted_pir_handler_cases:
  "emitted s (pir_handler env pin s) =
     (if env (clock s + 100) pin \<and> pin = snsr_bedroom then
        (clock s + 100, Read pin True)
          # (clock s + 100, Print ''ALARM! Motion detected in bedroom!'')
          # pulse_events led_bedroom (clock s + 100) 10
      else if env (clock s + 100) pin \<and> pin = snsr_living_room then
        (clock s + 100, Read pin True)
          # (clock s + 100, Print ''ALARM! Motion detected in living room!'')
          # pulse_events led_living_room (clock s + 100) 10
      else [(clock s + 100, Read pin (env (clock s + 100) pin))])"
  by (auto simp add: emitted_pir_handler_bedroom emitted_pir_handler_living_room
      emitted_pir_handler_low emitted_pir_handler_unknown_pin)

lemma map_snd_pulse_events:
  "map snd (pulse_events led c n) = map snd (pulse_events led c' n)"
  by (induction n) (simp_all add: pulse_events_0 pulse_events_Suc)

lemma window_count:
  assumes "c \<le> a" and "a + 1000 * n \<le> c + 1000 * m"
  shows "length (filter (\<lambda>t. a \<le> t \<and> t < a + 1000 * n) (map (\<lambda>k. c + 1000 * k) [0..<m])) = n"
proof -
  define k0 where "k0 = (a - c + 999) div 1000"
  have in_window: "(a \<le> c + 1000 * k \<and> c + 1000 * k < a + 1000 * n) = (k0 \<le> k \<and> k < k0 + n)" for k
    using assms(1) unfolding k0_def by auto
  have bound: "k0 + n \<le> m"
    using assms unfolding k0_def by auto
  have "length (filter (\<lambda>t. a \<le> t \<and> t < a + 1000 * n) (map (\<lambda>k. c + 1000 * k) [0..<m]))
      = length (filter (\<lambda>k. k0 \<le> k \<and> k < k0 + n) [0..<m])"
    by (simp add: filter_map comp_def in_window)
  also have "\<dots> = card {k. k < m \<and> k0 \<le> k \<and> k < k0 + n}"
    unfolding length_filter_conv_card by (rule arg_cong [where f = card]) auto
  also have "{k. k < m \<and> k0 \<le> k \<and> k < k0 + n} = {k0..<k0 + n}"
    using bound by auto
  finally show ?thesis by simp
qed


lemma relative_times:
  "map (\<lambda>t. t - c) (map (\<lambda>k. c + 100 + 100 * k) [0..<n]) = map (\<lambda>k. 100 + 100 * k) [0..<n]"
  by simp

text \<open>
  Claim C4. Whatever the read returns, a handler invocation for the bedroom sensor never
  toggles the living-room indicator and leaves its level alone, and an invocation for
  the living-room sensor never toggles the bedroom indicator. Both trigger paths toggle
  the buzzer identically: when confirmed, each toggles it 10 times, the first toggle
  100 ms after the handler starts and the others 100 ms apart; and whenever the two reads
  agree, the buzzer's toggle instants, counted from the start of the handler, are the
  same on both paths, and the buzzer ends at the level it started from.
\<close>
theorem pir_handler_zone_frame:
  "toggles led_living_room (emitted s (pir_handler env snsr_bedroom s)) = 0
   \<and> level (pir_handler env snsr_bedroom s) led_living_room = level s led_living_room
   \<and> toggles led_bedroom (emitted s (pir_handler env snsr_living_room s)) = 0
   \<and> level (pir_handler env snsr_living_room s) led_bedroom = level s led_bedroom
   \<and> (env1 (clock s1 + 100) snsr_bedroom \<longrightarrow>
        toggle_times buzzer (emitted s1 (pir_handler env1 snsr_bedroom s1))
          = map (\<lambda>k. clock s1 + 100 + 100 * k) [0..<10])
   \<and> (env2 (clock s2 + 100) snsr_living_room \<longrightarrow>
        toggle_times buzzer (emitted s2 (pir_handler env2 snsr_living_room s2))
          = map (\<lambda>k. clock s2 + 100 + 100 * k) [0..<10])
   \<and> (env1 (clock s1 + 100) snsr_bedroom = env2 (clock s2 + 100) snsr_living_room \<longrightarrow>
        map (\<lambda>t. t - clock s1) (toggle_times buzzer (emitted s1 (pir_handler env1 snsr_bedroom s1)))
          = map (\<lambda>t. t - clock s2)
              (toggle_times buzzer (emitted s2 (pir_handler env2 snsr_living_room s2)))
        \<and> level (pir_handler env1 snsr_bedroom s1) buzzer = level s1 buzzer
        \<and> level (pir_handler env2 snsr_living_room s2) buzzer = level s2 buzzer)"
proof -
  have a: "toggles led_living_room (emitted s (pir_handler env snsr_bedroom s)) = 0"
    by (simp add: emitted_pir_handler_cases log_simps)
  have b: "toggles led_bedroom (emitted s (pir_handler env snsr_living_room s)) = 0"
    by (simp add: emitted_pir_handler_cases log_simps)
  have c: "toggle_times buzzer (emitted s1 (pir_handler env1 snsr_bedroom s1))
          = (if env1 (clock s1 + 100) snsr_bedroom
             then map (\<lambda>k. clock s1 + 100 + 100 * k) [0..<10] else [])"
    by (simp add: emitted_pir_handler_cases log_simps)
  have d: "toggle_times buzzer (emitted s2 (pir_handler env2 snsr_living_room s2))
          = (if env2 (clock s2 + 100) snsr_living_room
             then map (\<lambda>k. clock s2 + 100 + 100 * k) [0..<10] else [])"
    by (simp add: emitted_pir_handler_cases log_simps)
  have e: "env1 (clock s1 + 100) snsr_bedroom = env2 (clock s2 + 100) snsr_living_room \<Longrightarrow>
        map (\<lambda>t. t - clock s1) (toggle_times buzzer (emitted s1 (pir_handler env1 snsr_bedroom s1)))
          = map (\<lambda>t. t - clock s2)
              (toggle_times buzzer (emitted s2 (pir_handler env2 snsr_living_room s2)))"
    unfolding c d by (simp only: relative_times if_distrib [of "map _"] list.map split: if_splits)
  from a b c d e show ?thesis
    by (simp add: level_pir_handler)
qed


text \<open>Both sensors confirmed, each on a board at power-on.\<close>

theorem pir_handler_zone_frame_witness:
  "always_high (clock idle_board + 100) snsr_bedroom
   \<and> always_high (clock idle_board + 100) snsr_living_room
   \<and> toggles led_living_room (emitted idle_board (pir_handler always_high snsr_bedroom idle_board)) = 0
   \<and> toggles led_bedroom (emitted idle_board (pir_handler always_high snsr_living_room idle_board)) = 0
   \<and> toggle_times buzzer (emitted idle_board (pir_handler always_high snsr_bedroom idle_board))
       = [100, 200, 300, 400, 500, 600, 700, 800, 900, 1000]
   \<and> toggle_times buzzer (emitted idle_board (pir_handler always_high snsr_living_room idle_board))
       = [100, 200, 300, 400, 500, 600, 700, 800, 900, 1000]"
proof -
  have h1: "always_high (clock idle_board + 100) snsr_bedroom"
    and h2: "always_high (clock idle_board + 100) snsr_living_room"
    by (simp_all add: always_high_def)
  have c: "clock idle_board = 0"
    by (simp add: idle_board_def)
  have u: "map (\<lambda>k. 100 + 100 * k) [0..<10] = [100, 200, 300, 400, 500, 600, 700, 800, 900, 1000::nat]"
    by (simp add: upt_rec)
  note t = pir_handler_zone_frame [of idle_board always_high always_high idle_board
      always_high idle_board]
  from t have a: "toggles led_living_room
      (emitted idle_board (pir_handler always_high snsr_bedroom idle_board)) = 0"
    by blast
  from t have b: "toggles led_bedroom
      (emitted idle_board (pir_handler always_high snsr_living_room idle_board)) = 0"
    by blast
  from t h1 have d: "toggle_times buzzer
      (emitted idle_board (pir_handler always_high snsr_bedroom idle_board))
       = map (\<lambda>k. clock idle_board + 100 + 100 * k) [0..<10]"
    by blast
  from t h2 have e: "toggle_times buzzer
      (emitted idle_board (pir_handler always_high snsr_living_room idle_board))
       = map (\<lambda>k. clock idle_board + 100 + 100 * k) [0..<10]"
    by blast
  from h1 h2 a b d e show ?thesis
    by (simp add: c u)
qed

section \<open>The heartbeat loop and the whole program\<close>

text \<open>
  Claim C5. While no handler runs, one iteration of the heartbeat loop toggles each of the
  two indicators exactly once, at the same instant, and then waits one second. The first
  \<open>n\<close> iterations are the run of \<open>3 * n\<close> loop statements with no interrupt; they take
  \<open>n\<close> seconds, toggle each indicator exactly \<open>n\<close> times, once at the start of every
  second, and never touch the buzzer. More generally, any interval of \<open>n\<close> seconds
  \<open>[a, a + 1000 * n)\<close> that lies within the time the loop has been running contains exactly
  \<open>n\<close> toggles of each indicator and no write to the buzzer.
\<close>
theorem main_loop_heartbeat:
  "emitted s (heartbeat_iteration s)
     = [(clock s, Toggle led_bedroom), (clock s, Toggle led_living_room)]
   \<and> clock (heartbeat_iteration s) = clock s + 1000
   \<and> main_loop n s = run env 0 (concat (replicate n [Statement, Statement, Statement])) s
   \<and> clock (main_loop n s) = clock s + 1000 * n
   \<and> toggles led_bedroom (emitted s (main_loop n s)) = n
   \<and> toggles led_living_room (emitted s (main_loop n s)) = n
   \<and> toggle_times led_bedroom (emitted s (main_loop n s)) = map (\<lambda>k. clock s + 1000 * k) [0..<n]
   \<and> toggle_times led_living_room (emitted s (main_loop n s))
       = map (\<lambda>k. clock s + 1000 * k) [0..<n]
   \<and> toggles buzzer (emitted s (main_loop n s)) = 0
   \<and> level (main_loop n s) buzzer = level s buzzer
   \<and> (clock s \<le> a \<and> a + 1000 * n \<le> clock s + 1000 * m \<longrightarrow>
        length (filter (\<lambda>t. a \<le> t \<and> t < a + 1000 * n)
                 (toggle_times led_bedroom (emitted s (main_loop m s)))) = n
      \<and> length (filter (\<lambda>t. a \<le> t \<and> t < a + 1000 * n)
                 (toggle_times led_living_room (emitted s (main_loop m s)))) = n
      \<and> toggles buzzer (emitted s (main_loop m s)) = 0)"
proof -
  have one: "emitted s (heartbeat_iteration s)
     = [(clock s, Toggle led_bedroom), (clock s, Toggle led_living_room)]"
    by (simp add: emitted_append heartbeat_iteration_eq)
  have tick: "clock (heartbeat_iteration s) = clock s + 1000"
    by (simp add: heartbeat_iteration_eq)
  have as_run: "main_loop n s = run env 0 (concat (replicate n [Statement, Statement, Statement])) s"
    by (rule main_loop_is_run)
  have buzzer_idle: "toggles buzzer (emitted s (main_loop k s)) = 0" for k
    by (simp add: emitted_main_loop toggles_def toggle_times_heartbeat_other pins_distinct)
  have buzzer_level: "level (main_loop n s) buzzer = level s buzzer"
    by (simp add: level_main_loop pins_distinct)
  have window: "clock s \<le> a \<and> a + 1000 * n \<le> clock s + 1000 * m \<longrightarrow>
        length (filter (\<lambda>t. a \<le> t \<and> t < a + 1000 * n)
                 (toggle_times led_bedroom (emitted s (main_loop m s)))) = n
      \<and> length (filter (\<lambda>t. a \<le> t \<and> t < a + 1000 * n)
                 (toggle_times led_living_room (emitted s (main_loop m s)))) = n"
  proof (intro impI, elim conjE)
    assume lo: "clock s \<le> a" and hi: "a + 1000 * n \<le> clock s + 1000 * m"
    show "length (filter (\<lambda>t. a \<le> t \<and> t < a + 1000 * n)
                 (toggle_times led_bedroom (emitted s (main_loop m s)))) = n
      \<and> length (filter (\<lambda>t. a \<le> t \<and> t < a + 1000 * n)
                 (toggle_times led_living_room (emitted s (main_loop m s)))) = n"
      unfolding emitted_main_loop toggle_times_heartbeat_bedroom
        toggle_times_heartbeat_living_room
      using window_count [OF lo hi] by blast
  qed
  have elapsed: "clock (main_loop n s) = clock s + 1000 * n"
    by (rule clock_main_loop)
  have times_bedroom: "toggle_times led_bedroom (emitted s (main_loop n s))
      = map (\<lambda>k. clock s + 1000 * k) [0..<n]"
    by (simp add: emitted_main_loop toggle_times_heartbeat_bedroom)
  have times_living_room: "toggle_times led_living_room (emitted s (main_loop n s))
      = map (\<lambda>k. clock s + 1000 * k) [0..<n]"
    by (simp add: emitted_main_loop toggle_times_heartbeat_living_room)
  have count_bedroom: "toggles led_bedroom (emitted s (main_loop n s)) = n"
    by (simp add: toggles_def times_bedroom)
  have count_living_room: "toggles led_living_room (emitted s (main_loop n s)) = n"
    by (simp add: toggles_def times_living_room)
  show ?thesis
    using one tick as_run elapsed count_bedroom count_living_room times_bedroom
      times_living_room buzzer_idle [of n] buzzer_idle [of m] buzzer_level window
    by blast
qed

text \<open>
  The scenario of the specification: five seconds without a trigger, from power-on; and
  a two-second interval starting in the middle of a second.
\<close>

theorem main_loop_heartbeat_witness:
  "clock idle_board \<le> 0 \<and> 0 + 1000 * 5 \<le> clock idle_board + 1000 * 5
   \<and> clock idle_board \<le> 1500 \<and> 1500 + 1000 * 2 \<le> clock idle_board + 1000 * 5
   \<and> clock (main_loop 5 idle_board) = 5000
   \<and> toggles led_bedroom (emitted idle_board (main_loop 5 idle_board)) = 5
   \<and> toggles led_living_room (emitted idle_board (main_loop 5 idle_board)) = 5
   \<and> toggle_times led_bedroom (emitted idle_board (main_loop 5 idle_board))
       = [0, 1000, 2000, 3000, 4000]
   \<and> toggle_times led_living_room (emitted idle_board (main_loop 5 idle_board))
       = [0, 1000, 2000, 3000, 4000]
   \<and> toggles buzzer (emitted idle_board (main_loop 5 idle_board)) = 0
   \<and> length (filter (\<lambda>t. 0 \<le> t \<and> t < 0 + 1000 * 5)
        (toggle_times led_bedroom (emitted idle_board (main_loop 5 idle_board)))) = 5
   \<and> length (filter (\<lambda>t. 1500 \<le> t \<and> t < 1500 + 1000 * 2)
        (toggle_times led_living_room (emitted idle_board (main_loop 5 idle_board)))) = 2"
proof -
  have c: "clock idle_board = 0"
    by (simp add: idle_board_def)
  have h1: "clock idle_board \<le> 0 \<and> 0 + 1000 * 5 \<le> clock idle_board + 1000 * 5"
    by (simp add: c)
  have h2: "clock idle_board \<le> 1500 \<and> 1500 + 1000 * 2 \<le> clock idle_board + 1000 * 5"
    by (simp add: c)
  have u: "map (\<lambda>k. clock idle_board + 1000 * k) [0..<5] = [0, 1000, 2000, 3000, 4000::nat]"
    by (simp add: c upt_rec)
  note t1 = main_loop_heartbeat [of idle_board 5 always_low 0 5]
  note t2 = main_loop_heartbeat [of idle_board 2 always_low 1500 5]
  from t1 have a1: "clock (main_loop 5 idle_board) = clock idle_board + 1000 * 5"
    by blast
  from t1 have a2: "toggles led_bedroom (emitted idle_board (main_loop 5 idle_board)) = 5"
    by blast
  from t1 have a3: "toggles led_living_room (emitted idle_board (main_loop 5 idle_board)) = 5"
    by blast
  from t1 have a4: "toggle_times led_bedroom (emitted idle_board (main_loop 5 idle_board))
       = map (\<lambda>k. clock idle_board + 1000 * k) [0..<5]"
    by blast
  from t1 have a5: "toggle_times led_living_room (emitted idle_board (main_loop 5 idle_board))
       = map (\<lambda>k. clock idle_board + 1000 * k) [0..<5]"
    by blast
  from t1 have a6: "toggles buzzer (emitted idle_board (main_loop 5 idle_board)) = 0"
    by blast
  from t1 h1 have a7: "length (filter (\<lambda>t. 0 \<le> t \<and> t < 0 + 1000 * 5)
        (toggle_times led_bedroom (emitted idle_board (main_loop 5 idle_board)))) = 5"
    by blast
  from t2 h2 have a8: "length (filter (\<lambda>t. 1500 \<le> t \<and> t < 1500 + 1000 * 2)
        (toggle_times led_living_room (emitted idle_board (main_loop 5 idle_board)))) = 2"
    by blast
  from a1 have a1': "clock (main_loop 5 idle_board) = 5000"
    by (simp add: c)
  from h1 h2 a1' a2 a3 a4 [unfolded u] a5 [unfolded u] a6 a7 a8 show ?thesis
    by blast
qed

text \<open>
  Claim C9. Every iteration of the heartbeat loop toggles both indicators, so the
  exclusive-or of the bedroom and living-room indicator levels is the same after one
  iteration, and after any number \<open>n\<close> of iterations, as it was when the loop started.
\<close>
theorem main_loop_relative_phase:
  "(level (heartbeat_iteration s) led_bedroom \<noteq> level (heartbeat_iteration s) led_living_room)
     = (level s led_bedroom \<noteq> level s led_living_room)
   \<and> (level (main_loop n s) led_bedroom \<noteq> level (main_loop n s) led_living_room)
     = (level s led_bedroom \<noteq> level s led_living_room)"
  by (auto simp add: level_main_loop heartbeat_iteration_eq pins_distinct)


text \<open>
  Claim C6. A confirmed trigger of the bedroom sensor prints exactly the line
  \<^verbatim>\<open>ALARM! Motion detected in bedroom!\<close>, a confirmed trigger of the living-room sensor
  exactly the line \<^verbatim>\<open>ALARM! Motion detected in living room!\<close>. Nothing else is ever
  printed: a handler invocation prints the alert line of its one read (none if the read
  is low or the pin is no sensor), the heartbeat loop and each of its statements print
  nothing, and in every execution of the program, from any board and any point of the
  loop, the console output is, in order, one alert line for each read of a sensor that
  came back high.
\<close>
theorem console_output:
  "(env (clock s + 100) snsr_bedroom \<longrightarrow>
      console (emitted s (pir_handler env snsr_bedroom s)) = [''ALARM! Motion detected in bedroom!''])
   \<and> (env (clock s + 100) snsr_living_room \<longrightarrow>
      console (emitted s (pir_handler env snsr_living_room s))
        = [''ALARM! Motion detected in living room!''])
   \<and> console (emitted s (pir_handler env pin s))
       = alert_lines [(clock s + 100, pin, env (clock s + 100) pin)]
   \<and> console (emitted s (main_loop n s)) = []
   \<and> console (emitted s (main_stmt pc s)) = []
   \<and> console (emitted s (run env pc os s)) = alert_lines (reads (emitted s (run env pc os s)))"
proof -
  have handler: "console (emitted s (pir_handler env pin s))
       = alert_lines [(clock s + 100, pin, env (clock s + 100) pin)]"
    by (auto simp add: emitted_pir_handler_cases alert_lines_def log_simps)
  have loop: "console (emitted s (main_loop n s)) = []"
    by (simp add: emitted_main_loop console_heartbeat)
  have stmt: "console (emitted s (main_stmt pc s)) = []"
    by (simp add: emitted_def main_stmt_def board_simps sleep_def console_simps)
  have bedroom: "env (clock s + 100) snsr_bedroom \<longrightarrow>
      console (emitted s (pir_handler env snsr_bedroom s)) = [''ALARM! Motion detected in bedroom!'']"
    by (simp add: emitted_pir_handler_cases log_simps)
  have living_room: "env (clock s + 100) snsr_living_room \<longrightarrow>
      console (emitted s (pir_handler env snsr_living_room s))
        = [''ALARM! Motion detected in living room!'']"
    by (simp add: emitted_pir_handler_cases log_simps)
  from bedroom living_room handler loop stmt console_run [of s env pc os] show ?thesis
    by blast
qed

lemma always_high_holds: "always_high t p"
  by (simp add: always_high_def)

text \<open>
  Both sensors confirmed on a board at power-on; and an execution in which the
  living-room sensor, the bedroom sensor and an unknown pin interrupt the loop in turn.
\<close>

theorem console_output_witness:
  "always_high (clock idle_board + 100) snsr_bedroom
   \<and> always_high (clock idle_board + 100) snsr_living_room
   \<and> console (emitted idle_board (pir_handler always_high snsr_bedroom idle_board))
       = [''ALARM! Motion detected in bedroom!'']
   \<and> console (emitted idle_board (pir_handler always_high snsr_living_room idle_board))
       = [''ALARM! Motion detected in living room!'']
   \<and> console (emitted idle_board (main_loop 5 idle_board)) = []
   \<and> console (emitted idle_board
        (run always_high 0
          [Statement, Interrupt snsr_living_room, Statement, Interrupt snsr_bedroom, Statement,
           Interrupt (Pin 7)] idle_board))
       = [''ALARM! Motion detected in living room!'', ''ALARM! Motion detected in bedroom!'']"
proof -
  note t = console_output [of always_high idle_board "Pin 7" 5 0
      "[Statement, Interrupt snsr_living_room, Statement, Interrupt snsr_bedroom, Statement,
        Interrupt (Pin 7)]"]
  have h1: "always_high (clock idle_board + 100) snsr_bedroom"
    and h2: "always_high (clock idle_board + 100) snsr_living_room"
    by (rule always_high_holds)+
  from t h1 have a: "console (emitted idle_board (pir_handler always_high snsr_bedroom idle_board))
       = [''ALARM! Motion detected in bedroom!'']"
    by blast
  from t h2 have b: "console (emitted idle_board (pir_handler always_high snsr_living_room idle_board))
       = [''ALARM! Motion detected in living room!'']"
    by blast
  from t have c: "console (emitted idle_board (main_loop 5 idle_board)) = []"
    by blast
  have unknown: "Pin 7 \<noteq> snsr_bedroom" "Pin 7 \<noteq> snsr_living_room"
    by (simp_all add: snsr_bedroom_def snsr_living_room_def)
  have r: "reads (emitted idle_board
        (run always_high 0
          [Statement, Interrupt snsr_living_room, Statement, Interrupt snsr_bedroom, Statement,
           Interrupt (Pin 7)] idle_board))
       = [(100, snsr_living_room, True), (1200, snsr_bedroom, True), (3300, Pin 7, True)]"
    by (simp add: emitted_def main_stmt_def board_simps sleep_def always_high_holds
        trace_pir_handler_bedroom trace_pir_handler_living_room clock_pir_handler_confirmed
        pir_handler_unknown_pin unknown idle_board_def log_simps)
  from t have "console (emitted idle_board
        (run always_high 0
          [Statement, Interrupt snsr_living_room, Statement, Interrupt snsr_bedroom, Statement,
           Interrupt (Pin 7)] idle_board))
       = alert_lines (reads (emitted idle_board
        (run always_high 0
          [Statement, Interrupt snsr_living_room, Statement, Interrupt snsr_bedroom, Statement,
           Interrupt (Pin 7)] idle_board)))"
    by blast
  then have d: "console (emitted idle_board
        (run always_high 0
          [Statement, Interrupt snsr_living_room, Statement, Interrupt snsr_bedroom, Statement,
           Interrupt (Pin 7)] idle_board))
       = [''ALARM! Motion detected in living room!'', ''ALARM! Motion detected in bedroom!'']"
    unfolding r by (simp add: alert_lines_def pins_distinct unknown)
  from h1 h2 a b c d show ?thesis
    by blast
qed

text \<open>
  Claim C8. The handler reads the pin exactly once, 100 ms after it starts. What it does
  is determined by the pin and that one read: two environments that agree on that read
  lead from the same board to the same board, whatever they say about later instants;
  and from any two boards the same pin and the same read give the same sequence of
  events (message, toggles) and the same console output.
\<close>
theorem pir_handler_single_read:
  "reads (emitted s (pir_handler env pin s)) = [(clock s + 100, pin, env (clock s + 100) pin)]
   \<and> (env (clock s + 100) pin = env' (clock s + 100) pin \<longrightarrow>
        pir_handler env pin s = pir_handler env' pin s)
   \<and> (env (clock s + 100) pin = env' (clock s' + 100) pin \<longrightarrow>
        map snd (emitted s (pir_handler env pin s)) = map snd (emitted s' (pir_handler env' pin s'))
        \<and> console (emitted s (pir_handler env pin s)) = console (emitted s' (pir_handler env' pin s')))"
proof -
  have once: "reads (emitted s (pir_handler env pin s))
      = [(clock s + 100, pin, env (clock s + 100) pin)]"
    by (auto simp add: emitted_pir_handler_cases log_simps)
  have same_board: "env (clock s + 100) pin = env' (clock s + 100) pin \<longrightarrow>
        pir_handler env pin s = pir_handler env' pin s"
    by (simp add: pir_handler_def Let_def pin_value_def sleep_ms_def emit_def)
  have same_events: "map snd (emitted s (pir_handler env pin s))
        = map snd (emitted s' (pir_handler env' pin s'))"
    if eq: "env (clock s + 100) pin = env' (clock s' + 100) pin"
  proof (cases "env (clock s + 100) pin")
    case False
    with eq have "\<not> env' (clock s' + 100) pin" by simp
    with False show ?thesis
      by (simp add: emitted_pir_handler_low)
  next
    case high: True
    with eq have high': "env' (clock s' + 100) pin" by simp
    show ?thesis
    proof (cases "pin = snsr_bedroom")
      case True
      with high high' show ?thesis
        by (simp add: emitted_pir_handler_bedroom
            map_snd_pulse_events [of _ "clock s + 100" _ "clock s' + 100"])
    next
      case nb: False
      show ?thesis
      proof (cases "pin = snsr_living_room")
        case True
        with high high' show ?thesis
          by (simp add: emitted_pir_handler_living_room
              map_snd_pulse_events [of _ "clock s + 100" _ "clock s' + 100"])
      next
        case False
        with nb high high' show ?thesis
          by (simp add: emitted_pir_handler_unknown_pin)
      qed
    qed
  qed
  have console_snd: "console tr = console tr'" if "map snd tr = map snd tr'"
    for tr tr' :: "(nat \<times> event) list"
  proof -
    have via_snd: "console xs
        = concat (map (\<lambda>e. case e of Print msg \<Rightarrow> [msg] | _ \<Rightarrow> []) (map snd xs))"
      for xs :: "(nat \<times> event) list"
      by (simp add: console_def comp_def)
    show ?thesis by (simp only: via_snd that)
  qed
  have same_console: "console (emitted s (pir_handler env pin s))
        = console (emitted s' (pir_handler env' pin s'))"
    if "env (clock s + 100) pin = env' (clock s' + 100) pin"
    using that by (intro console_snd same_events)
  from once same_board same_events same_console show ?thesis
    by blast
qed


text \<open>
  A sensor that goes low 150 ms after power-on, in the middle of the pulse loop, against
  one that stays high: the handler does the same in both.
\<close>

theorem pir_handler_single_read_witness:
  "high_until 150 (clock idle_board + 100) snsr_bedroom
     = always_high (clock idle_board + 100) snsr_bedroom
   \<and> high_until 150 (clock idle_board + 200) snsr_bedroom
     \<noteq> always_high (clock idle_board + 200) snsr_bedroom
   \<and> reads (emitted idle_board (pir_handler (high_until 150) snsr_bedroom idle_board))
       = [(100, snsr_bedroom, True)]
   \<and> pir_handler (high_until 150) snsr_bedroom idle_board
       = pir_handler always_high snsr_bedroom idle_board
   \<and> map snd (emitted idle_board (pir_handler (high_until 150) snsr_bedroom idle_board))
       = map snd (emitted idle_board (pir_handler always_high snsr_bedroom idle_board))"
proof -
  note t = pir_handler_single_read [of idle_board "high_until 150" snsr_bedroom always_high
      idle_board]
  have c: "clock idle_board = 0"
    by (simp add: idle_board_def)
  have h: "high_until 150 (clock idle_board + 100) snsr_bedroom
     = always_high (clock idle_board + 100) snsr_bedroom"
    by (simp add: c high_until_def always_high_def)
  have later: "high_until 150 (clock idle_board + 200) snsr_bedroom
     \<noteq> always_high (clock idle_board + 200) snsr_bedroom"
    by (simp add: c high_until_def always_high_def)
  from t have "reads (emitted idle_board (pir_handler (high_until 150) snsr_bedroom idle_board))
       = [(clock idle_board + 100, snsr_bedroom,
           high_until 150 (clock idle_board + 100) snsr_bedroom)]"
    by blast
  then have a: "reads (emitted idle_board (pir_handler (high_until 150) snsr_bedroom idle_board))
       = [(100, snsr_bedroom, True)]"
    by (simp add: c high_until_def)
  from t h have b: "pir_handler (high_until 150) snsr_bedroom idle_board
       = pir_handler always_high snsr_bedroom idle_board"
    by blast
  from t h have d: "map snd (emitted idle_board (pir_handler (high_until 150) snsr_bedroom idle_board))
       = map snd (emitted idle_board (pir_handler always_high snsr_bedroom idle_board))"
    by blast
  from h later a b d show ?thesis
    by blast
qed

end
